theory Spec2Isabelle
  imports Main
begin

section \<open>The Stopwatch component (src/src/components/Sidebar.tsx, lines 45-171)\<close>

text \<open>
  The file holds two documents; the second one is the React component \<open>Stopwatch\<close>.
  It owns four \<open>useState\<close> cells (\<open>time\<close>, \<open>isRunning\<close>, \<open>isSelectingLabel\<close>,
  \<open>currentDisplayedLabel\<close>) and one \<open>useRef\<close> cell (\<open>intervalRef\<close>) holding the handle
  of the interval created by \<open>window.setInterval\<close>.

  Numbers: a JavaScript \<open>number\<close> is an IEEE 754 double. \<open>time\<close> starts at 0 and is only
  ever set to 0 or to \<open>prevTime + 10\<close>, so every value it takes is a non-negative integer
  that is a double; such a value is modelled by the natural number it denotes. The
  arithmetic on it is the arithmetic of doubles: a sum or a quotient is the exact result
  rounded to the nearest double, ties to the even significand.
\<close>

subsection \<open>The JavaScript library functions the component calls\<close>

text \<open>The number of binary digits of a natural number.\<close>

fun bitlen :: "nat \<Rightarrow> nat" where
  "bitlen n = (if n = 0 then 0 else Suc (bitlen (n div 2)))"

declare bitlen.simps [simp del]

text \<open>The fraction \<open>num / den\<close> rounded to the nearest integer, ties to the even one.\<close>

definition round_half_even :: "nat \<Rightarrow> nat \<Rightarrow> nat" where
  "round_half_even num den =
     (let q = num div den; r = num mod den
      in if den < 2 * r \<or> (2 * r = den \<and> odd q) then q + 1 else q)"

text \<open>The double nearest to the natural number \<open>n\<close>: below \<open>2^53\<close> every natural number is a
  double; above, the significand keeps 53 binary digits. This is the result of \<open>a + b\<close> on
  doubles whose exact sum is \<open>n\<close> (no sum in this component comes near the largest double).\<close>

definition round53 :: "nat \<Rightarrow> nat" where
  "round53 n =
     (if n < 2 ^ 53 then n
      else let e = bitlen n - 53 in round_half_even n (2 ^ e) * 2 ^ e)"

text \<open>The integer part of the binary logarithm of \<open>a / b\<close>, for positive \<open>a\<close> and \<open>b\<close>.\<close>

definition log2_quotient :: "nat \<Rightarrow> nat \<Rightarrow> int" where
  "log2_quotient a b =
     (let la = bitlen a - 1; lb = bitlen b - 1
      in if b * 2 ^ la \<le> a * 2 ^ lb then int la - int lb else int la - int lb - 1)"

text \<open>\<open>Math.floor(a / b)\<close> for doubles \<open>a\<close> and \<open>b\<close> that are natural numbers, \<open>b\<close> positive (the
  component divides by the constants 60000, 1000 and 10 only): the quotient is rounded to
  53 significant binary digits, with the unit of the last digit \<open>2^(E - 52)\<close> where \<open>E\<close> is
  the binary logarithm of the quotient, and then cut to an integer. The remainder \<open>a % b\<close>
  of such doubles is exact, so it is \<open>a mod b\<close>.\<close>

definition floor_quotient :: "nat \<Rightarrow> nat \<Rightarrow> nat" where
  "floor_quotient a b =
     (if a = 0 then 0
      else let E = log2_quotient a b
           in if 52 < E then
                (let e = nat (E - 52) in round_half_even a (b * 2 ^ e) * 2 ^ e)
              else
                (let f = nat (52 - E) in round_half_even (a * 2 ^ f) b div 2 ^ f))"

text \<open>The decimal digits of a natural number, most significant first, no leading zero
  (\<open>0\<close> is \<open>"0"\<close>).\<close>

definition digit_char :: "nat \<Rightarrow> char" where
  "digit_char d = char_of (48 + d)"

fun decimal :: "nat \<Rightarrow> string" where
  "decimal n = (if n < 10 then [digit_char n] else decimal (n div 10) @ [digit_char (n mod 10)])"

declare decimal.simps [simp del]

text \<open>
  \<open>Number.prototype.toString\<close> on a double \<open>v\<close> that is a natural number. The digits printed
  are those of the shortest decimal number that still rounds to \<open>v\<close>, and of these the one
  nearest to \<open>v\<close> (the even one on a tie). Below \<open>2^53\<close> that number is \<open>v\<close> itself. Above,
  \<open>shortest\<close> tries 1, 2, ... significant digits: with \<open>k\<close> digits the only candidates are the
  two multiples of \<open>scale = 10^(n - k)\<close> next to \<open>v\<close>, where \<open>n\<close> is the number of digits of \<open>v\<close>.
  The number found is printed in full when it is below \<open>10^21\<close>, and otherwise as
  \<open>d.ddd\<close>\<open>e+\<close>\<open>x\<close> with its significant digits and its decimal exponent.
\<close>

definition candidate :: "nat \<Rightarrow> nat \<Rightarrow> nat option" where
  "candidate v scale =
     (let lo = v div scale; c1 = lo * scale; c2 = c1 + scale
      in if round53 c1 = v \<and> round53 c2 = v then
           (if v - c1 < c2 - v then Some c1
            else if c2 - v < v - c1 then Some c2
            else if even lo then Some c1 else Some c2)
         else if round53 c1 = v then Some c1
         else if round53 c2 = v then Some c2
         else None)"

function shortest :: "nat \<Rightarrow> nat \<Rightarrow> nat \<Rightarrow> nat" where
  "shortest v n k =
     (if n \<le> k then v
      else case candidate v (10 ^ (n - k)) of
             Some c \<Rightarrow> c
           | None \<Rightarrow> shortest v n (Suc k))"
  by pat_completeness auto
termination
  by (relation "measure (\<lambda>(v, n, k). n - k)") auto

declare shortest.simps [simp del]

definition exponential :: "nat \<Rightarrow> string" where
  "exponential c =
     (let s = decimal c;
          sig = rev (dropWhile (\<lambda>d. d = CHR ''0'') (rev s))
      in hd sig # (if 1 < length sig then CHR ''.'' # tl sig else []) @
         ''e+'' @ decimal (length s - 1))"

definition toString :: "nat \<Rightarrow> string" where
  "toString v =
     (if v < 2 ^ 53 then decimal v
      else let c = shortest v (length (decimal v)) 1
           in if c < 10 ^ 21 then decimal c else exponential c)"

text \<open>\<open>String.prototype.padStart(targetLength, padString)\<close>: the string is returned as
  it is when it is already long enough (or the pad string is empty); otherwise the pad
  string is repeated, cut to the missing length, and put in front.\<close>

definition padStart :: "nat \<Rightarrow> string \<Rightarrow> string \<Rightarrow> string" where
  "padStart targetLength padString str =
     (if targetLength \<le> length str \<or> padString = [] then str
      else take (targetLength - length str)
             (concat (replicate (targetLength - length str) padString)) @ str)"

subsection \<open>State\<close>

text \<open>
  The first four fields are the \<open>useState\<close> cells (lines 53-56); \<open>time\<close> is the natural
  number that the double in the cell denotes. \<open>intervalRef\<close> is the
  \<open>useRef\<close> cell (line 57, \<open>null\<close> is \<open>None\<close>). The last two fields are the part of the
  browser's timer table this component can touch: the handles of its intervals that are
  still active, and the handle the next \<open>setInterval\<close> call returns.
\<close>

record stopwatch =
  time :: nat
  isRunning :: bool
  isSelectingLabel :: bool
  currentDisplayedLabel :: "string option"
  intervalRef :: "nat option"
  activeIntervals :: "nat set"
  nextHandle :: nat

text \<open>Line 50. The degree sign is the single code unit \<open>0xB0\<close>.\<close>

definition timePointLabels :: "string list" where
  "timePointLabels =
     [CHR ''1'' # CHR 0xB0 # '' Tempo'', CHR ''2'' # CHR 0xB0 # '' Tempo'',
      CHR ''3'' # CHR 0xB0 # '' Tempo'', CHR ''4'' # CHR 0xB0 # '' Tempo'',
      ''Tempo Supplementare'', ''Intervallo'', ''Fine Partita'']"

text \<open>The state after the first render: \<open>useState(0)\<close>, \<open>useState(false)\<close>,
  \<open>useState(false)\<close>, \<open>useState(null)\<close>, \<open>useRef(null)\<close>, no interval yet. Timer
  handles are positive integers, so the first one is taken to be 1.\<close>

definition initial :: stopwatch where
  "initial = \<lparr>time = 0, isRunning = False, isSelectingLabel = False,
     currentDisplayedLabel = None, intervalRef = None, activeIntervals = {}, nextHandle = 1\<rparr>"

subsection \<open>The interval timer (lines 59-76)\<close>

text \<open>\<open>window.setInterval(callback, 10)\<close> registers a new interval and returns its handle;
  \<open>clearInterval(h)\<close> removes the interval with handle \<open>h\<close>, if there is one.\<close>

definition setInterval :: "stopwatch \<Rightarrow> nat \<times> stopwatch" where
  "setInterval s =
     (nextHandle s,
      s\<lparr>activeIntervals := insert (nextHandle s) (activeIntervals s),
        nextHandle := Suc (nextHandle s)\<rparr>)"

definition clearInterval :: "nat \<Rightarrow> stopwatch \<Rightarrow> stopwatch" where
  "clearInterval h s = s\<lparr>activeIntervals := activeIntervals s - {h}\<rparr>"

text \<open>The guarded call \<open>if (intervalRef.current) { clearInterval(intervalRef.current); }\<close>
  of lines 65-67, 72-74 and 97-99. A number is truthy when it is not 0.\<close>

definition clearIntervalRef :: "stopwatch \<Rightarrow> stopwatch" where
  "clearIntervalRef s =
     (case intervalRef s of
        None \<Rightarrow> s
      | Some h \<Rightarrow> if h \<noteq> 0 then clearInterval h s else s)"

text \<open>The callback of the interval, line 62: \<open>setTime((prevTime) => prevTime + 10)\<close>,
  an addition of doubles.\<close>

definition tick :: "stopwatch \<Rightarrow> stopwatch" where
  "tick s = s\<lparr>time := round53 (time s + 10)\<rparr>"

text \<open>The body of the effect (lines 60-68) and the cleanup it returns (lines 71-75).\<close>

definition effect :: "stopwatch \<Rightarrow> stopwatch" where
  "effect s =
     (if isRunning s then
        (case setInterval s of (h, s') \<Rightarrow> s'\<lparr>intervalRef := Some h\<rparr>)
      else clearIntervalRef s)"

definition effectCleanup :: "stopwatch \<Rightarrow> stopwatch" where
  "effectCleanup s = clearIntervalRef s"

subsection \<open>formatTime (lines 78-86)\<close>

definition pad :: "nat \<Rightarrow> string" where
  "pad num = padStart 2 ''0'' (toString num)"

definition formatTime :: "nat \<Rightarrow> string" where
  "formatTime milliseconds =
     (let minutes = floor_quotient milliseconds 60000;
          seconds = floor_quotient (milliseconds mod 60000) 1000;
          centiseconds = floor_quotient (milliseconds mod 1000) 10
      in pad minutes @ '':'' @ pad seconds @ ''.'' @ pad centiseconds)"

subsection \<open>The handlers (lines 88-119)\<close>

text \<open>A handler reads the state of the render it was created in and queues its
  \<open>set...\<close> calls; the model returns the state after they are applied.\<close>

definition handleStartStop :: "stopwatch \<Rightarrow> stopwatch" where
  "handleStartStop s =
     (let s1 = s\<lparr>isRunning := \<not> isRunning s\<rparr>
      in if isRunning s then s1\<lparr>isSelectingLabel := False\<rparr> else s1)"

definition handleReset :: "stopwatch \<Rightarrow> stopwatch" where
  "handleReset s =
     (clearIntervalRef s)\<lparr>isRunning := False, time := 0, isSelectingLabel := False,
        currentDisplayedLabel := None\<rparr>"

definition handleShowLabelSelection :: "stopwatch \<Rightarrow> stopwatch" where
  "handleShowLabelSelection s =
     (if isRunning s then s\<lparr>isSelectingLabel := True\<rparr> else s)"

definition handleSelectTimePoint :: "string \<Rightarrow> stopwatch \<Rightarrow> stopwatch" where
  "handleSelectTimePoint label s =
     (if isRunning s then s\<lparr>currentDisplayedLabel := Some label, isSelectingLabel := False\<rparr>
      else s)"

subsection \<open>Sequences of events\<close>

text \<open>
  What can happen to a mounted stopwatch: a click on one of the buttons, a firing of the
  interval, and React running the effect (the cleanup returned by the previous run, then
  the body). The callback of the interval is delivered only while an interval of the
  component is active. React runs the effect after a render in which \<open>isRunning\<close> has
  changed; how long after is decided by React's scheduler and not by this file, so the
  model lets \<open>RunEffect\<close> happen at any point of a sequence, any number of times, with the
  value \<open>isRunning\<close> has at that point. On the first render the effect runs with
  \<open>isRunning = false\<close> and \<open>intervalRef.current = null\<close> and does nothing, which is why
  \<open>initial\<close> has no interval.
\<close>

datatype event =
    ToggleRunning
  | Reset
  | RequestLabelSelection
  | SelectLabel string
  | Tick
  | RunEffect

fun step :: "event \<Rightarrow> stopwatch \<Rightarrow> stopwatch" where
  "step ToggleRunning s = handleStartStop s"
| "step Reset s = handleReset s"
| "step RequestLabelSelection s = handleShowLabelSelection s"
| "step (SelectLabel label) s = handleSelectTimePoint label s"
| "step Tick s = (if activeIntervals s = {} then s else tick s)"
| "step RunEffect s = effect (effectCleanup s)"

fun run :: "event list \<Rightarrow> stopwatch \<Rightarrow> stopwatch" where
  "run [] s = s"
| "run (e # es) s = run es (step e s)"

subsection \<open>Which interval can be active\<close>


subsection \<open>The formatting contract, in the words of the specification\<close>





section \<open>Properties\<close>

subsection \<open>Rounding to a double\<close>

lemma bitlen_0: "bitlen 0 = 0"
  by (simp add: bitlen.simps)

lemma bitlen_pos: "0 < n \<Longrightarrow> bitlen n = Suc (bitlen (n div 2))"
  by (subst bitlen.simps) simp

lemma bitlen_less: "n < 2 ^ bitlen n"
proof (induction n rule: bitlen.induct)
  case (1 n)
  show ?case
  proof (cases "n = 0")
    case True
    then show ?thesis by (simp add: bitlen_0)
  next
    case False
    with 1 have "n div 2 < 2 ^ bitlen (n div 2)" by simp
    then have "n < 2 * 2 ^ bitlen (n div 2)" by linarith
    with False show ?thesis by (simp add: bitlen_pos)
  qed
qed

lemma bitlen_le: "n < 2 ^ k \<Longrightarrow> bitlen n \<le> k"
proof (induction n arbitrary: k rule: bitlen.induct)
  case (1 n)
  show ?case
  proof (cases "n = 0")
    case True
    then show ?thesis by (simp add: bitlen_0)
  next
    case False
    with "1.prems" obtain j where k: "k = Suc j" by (cases k) auto
    with "1.prems" have "n div 2 < 2 ^ j" by simp
    with False 1 have "bitlen (n div 2) \<le> j" by simp
    with False k show ?thesis by (simp add: bitlen_pos)
  qed
qed



lemma round_half_even_bounds:
  "num div den \<le> round_half_even num den \<and> round_half_even num den \<le> Suc (num div den)"
  by (simp add: round_half_even_def Let_def)

lemma round_half_even_up:
  "round_half_even num den \<noteq> num div den \<Longrightarrow> den \<le> 2 * (num mod den)"
  by (auto simp: round_half_even_def Let_def split: if_splits)

lemma scaled_div:
  fixes a b P :: nat
  assumes "0 < b"
  shows "(a * P) div b = (a div b) * P + ((a mod b) * P) div b"
    and "(a * P) mod b = ((a mod b) * P) mod b"
proof -
  have "(k * b + r) * P = k * P * b + r * P" for k r :: nat
    by (simp add: algebra_simps)
  from this [of "a div b" "a mod b"] have "a * P = (a div b) * P * b + (a mod b) * P"
    by simp
  then show "(a * P) div b = (a div b) * P + ((a mod b) * P) div b"
    using assms by simp
  show "(a * P) mod b = ((a mod b) * P) mod b"
    by (simp add: mod_mult_left_eq)
qed

lemma floor_of_rounded:
  fixes k P t u r b m :: nat
  assumes split: "t * b + u = r * P"
    and r: "r < b"
    and small: "b < 2 * P"
    and lower: "k * P + t \<le> m"
    and upper: "m \<le> Suc (k * P + t)"
    and up: "m \<noteq> k * P + t \<Longrightarrow> b \<le> 2 * u"
  shows "m div P = k"
proof -
  from r have "Suc r \<le> b" by simp
  then have "Suc r * P \<le> b * P" by (rule mult_le_mono1)
  then have rP: "r * P + P \<le> b * P" by simp
  from r small have P: "0 < P" by linarith
  have t: "t < P"
  proof (rule ccontr)
    assume "\<not> t < P"
    then have "P \<le> t" by simp
    then have "P * b \<le> t * b" by (rule mult_le_mono1)
    with split rP P mult.commute [of P b] show False by linarith
  qed
  have less: "m < k * P + P"
  proof (cases "m = k * P + t")
    case True
    with t show ?thesis by linarith
  next
    case False
    then have half: "b \<le> 2 * u" by (rule up)
    have "Suc t < P"
    proof (rule ccontr)
      assume "\<not> Suc t < P"
      with t have "Suc t = P" by linarith
      then have "Suc t * b = P * b" by (rule arg_cong)
      moreover have "Suc t * b = t * b + b" by simp
      ultimately have "t * b + b = b * P" using mult.commute [of P b] by linarith
      with split rP have "u + P \<le> b" by linarith
      with half small show False by linarith
    qed
    with upper show ?thesis by linarith
  qed
  have "P * k \<le> m" using lower mult.commute [of P k] by linarith
  moreover have "m < P * Suc k" using less by (simp add: mult.commute)
  ultimately show ?thesis by (rule div_nat_eqI)
qed

lemma round_half_even_floor:
  assumes b: "0 < b" and small: "b < 2 * 2 ^ f"
  shows "round_half_even (a * 2 ^ f) b div 2 ^ f = a div b"
proof -
  define P :: nat where "P = 2 ^ f"
  define k r where "k = a div b" and "r = a mod b"
  define t u where "t = (r * P) div b" and "u = (r * P) mod b"
  define m where "m = round_half_even (a * P) b"
  have r: "r < b" using b by (simp add: r_def)
  have split: "t * b + u = r * P" by (simp add: t_def u_def)
  have d: "(a * P) div b = k * P + t" and md: "(a * P) mod b = u"
    using scaled_div [OF b, of a P] by (simp_all add: k_def r_def t_def u_def)
  have lower: "k * P + t \<le> m" and upper: "m \<le> Suc (k * P + t)"
    using round_half_even_bounds [of "a * P" b] by (simp_all add: m_def d)
  have up: "b \<le> 2 * u" if "m \<noteq> k * P + t"
  proof -
    from that have "round_half_even (a * P) b \<noteq> (a * P) div b" by (simp add: m_def d)
    then have "b \<le> 2 * ((a * P) mod b)" by (rule round_half_even_up)
    then show ?thesis by (simp add: md)
  qed
  from small have small': "b < 2 * P" by (simp add: P_def)
  from split r small' lower upper up have "m div P = k" by (rule floor_of_rounded)
  then show ?thesis by (simp add: m_def P_def k_def)
qed

lemma log2_quotient_le:
  "log2_quotient a b \<le> int (bitlen a - 1) - int (bitlen b - 1)"
  by (simp add: log2_quotient_def Let_def)

lemma floor_quotient_exact:
  assumes a: "a < 2 ^ 53" and b: "0 < b"
  shows "floor_quotient a b = a div b"
proof (cases "a = 0")
  case True
  then show ?thesis by (simp add: floor_quotient_def)
next
  case False
  let ?E = "log2_quotient a b"
  let ?f = "nat (52 - ?E)"
  from a have "bitlen a \<le> 53" by (rule bitlen_le)
  then have la: "int (bitlen a - 1) \<le> 52" by simp
  from b have "0 < bitlen b" by (simp add: bitlen_pos)
  then have lb: "int (bitlen b - 1) = int (bitlen b) - 1" by simp
  from la lb log2_quotient_le [of a b] have E: "?E \<le> 52" and f: "bitlen b \<le> Suc ?f"
    by linarith+
  have "b < 2 ^ bitlen b" by (rule bitlen_less)
  also from f have "(2::nat) ^ bitlen b \<le> 2 ^ Suc ?f"
    by (rule power_increasing) simp
  finally have "b < 2 * 2 ^ ?f" by simp
  with b have "round_half_even (a * 2 ^ ?f) b div 2 ^ ?f = a div b"
    by (rule round_half_even_floor)
  with False E show ?thesis
    by (simp add: floor_quotient_def Let_def)
qed

lemma round53_exact: "n < 2 ^ 53 \<Longrightarrow> round53 n = n"
  by (simp add: round53_def)

lemmas round53_eval = round53_def round_half_even_def bitlen_0 bitlen_pos




subsection \<open>Decimal digits\<close>





lemma decimal_one_digit: "n < 10 \<Longrightarrow> decimal n = [digit_char n]"
  by (subst decimal.simps) simp

lemma decimal_more_digits:
  "10 \<le> n \<Longrightarrow> decimal n = decimal (n div 10) @ [digit_char (n mod 10)]"
  by (subst decimal.simps) simp

lemma decimal_nonempty: "decimal n \<noteq> []"
  by (subst decimal.simps) simp




lemma length_decimal_ge2: "10 \<le> n \<Longrightarrow> 2 \<le> length (decimal n)"
  using decimal_nonempty [of "n div 10"]
  by (simp add: decimal_more_digits Suc_le_eq)




subsection \<open>Padding\<close>

lemma toString_small: "n < 2 ^ 53 \<Longrightarrow> toString n = decimal n"
  by (simp add: toString_def)


lemma pad_large: "10 \<le> n \<Longrightarrow> n < 2 ^ 53 \<Longrightarrow> pad n = decimal n"
  using length_decimal_ge2 [of n] by (simp add: pad_def padStart_def toString_small)








subsection \<open>A number has one zero-padded rendering\<close>











subsection \<open>Evaluation\<close>

lemmas decimal_eval = decimal_one_digit decimal_more_digits digit_char_def char_of_eq_iff



text \<open>
  From \<open>10^21\<close> on a number is printed in exponent notation: \<open>2^86\<close> ms, at
  1289520874255604514816 minutes, is rendered as \<open>1.2895208742556045e+21:55.26\<close>.
\<close>

lemma shortest_step:
  "shortest v n k =
     (case candidate v (10 ^ (n - k)) of Some c \<Rightarrow> c | None \<Rightarrow> shortest v n (Suc k))"
  if "k < n"
  using that by (subst shortest.simps) simp

lemma shortest_example:
  "shortest 1289520874255604514816 22 (Suc 0) = 1289520874255604500000"
proof -
  let ?v = "1289520874255604514816 :: nat"
  have r: "round53 1000000000000000000000 = 1000000000000000000000"
    "round53 2000000000000000000000 = 2000000000000000000000"
    "round53 1200000000000000000000 = 1200000000000000000000"
    "round53 1300000000000000000000 = 1300000000000000000000"
    "round53 1280000000000000000000 = 1280000000000000000000"
    "round53 1290000000000000000000 = 1290000000000000000000"
    "round53 1289000000000000000000 = 1289000000000000000000"
    "round53 1289500000000000000000 = 1289500000000000131072"
    "round53 1289600000000000000000 = 1289600000000000000000"
    "round53 1289520000000000000000 = 1289520000000000000000"
    "round53 1289530000000000000000 = 1289529999999999934464"
    "round53 1289521000000000000000 = 1289521000000000098304"
    "round53 1289520800000000000000 = 1289520799999999868928"
    "round53 1289520900000000000000 = 1289520899999999983616"
    "round53 1289520870000000000000 = 1289520869999999975424"
    "round53 1289520880000000000000 = 1289520880000000065536"
    "round53 1289520874000000000000 = 1289520873999999959040"
    "round53 1289520875000000000000 = 1289520874999999889408"
    "round53 1289520874200000000000 = 1289520874200000102400"
    "round53 1289520874300000000000 = 1289520874299999911936"
    "round53 1289520874250000000000 = 1289520874249999876096"
    "round53 1289520874260000000000 = 1289520874259999883264"
    "round53 1289520874255000000000 = 1289520874255000010752"
    "round53 1289520874256000000000 = 1289520874256000090112"
    "round53 1289520874255600000000 = 1289520874255600058368"
    "round53 1289520874255700000000 = 1289520874255699935232"
    "round53 1289520874255610000000 = 1289520874255610019840"
    "round53 1289520874255604000000 = 1289520874255603990528"
    "round53 1289520874255605000000 = 1289520874255605039104"
    "round53 1289520874255604500000 = 1289520874255604514816"
    "round53 1289520874255604600000 = 1289520874255604514816"
    by (simp_all add: round53_eval)
  have none: "candidate ?v 1000000000000000000000 = None"
    "candidate ?v 100000000000000000000 = None"
    "candidate ?v 10000000000000000000 = None"
    "candidate ?v 1000000000000000000 = None"
    "candidate ?v 100000000000000000 = None"
    "candidate ?v 10000000000000000 = None"
    "candidate ?v 1000000000000000 = None"
    "candidate ?v 100000000000000 = None"
    "candidate ?v 10000000000000 = None"
    "candidate ?v 1000000000000 = None"
    "candidate ?v 100000000000 = None"
    "candidate ?v 10000000000 = None"
    "candidate ?v 1000000000 = None"
    "candidate ?v 100000000 = None"
    "candidate ?v 10000000 = None"
    "candidate ?v 1000000 = None"
    by (simp_all add: candidate_def Let_def r)
  have some: "candidate ?v 100000 = Some 1289520874255604500000"
    by (simp add: candidate_def Let_def r)
  show ?thesis
    by (simp add: shortest_step none some)
qed

lemma toString_exponent_example: "toString 1289520874255604514816 = ''1.2895208742556045e+21''"
proof -
  have len: "length (decimal 1289520874255604514816) = 22"
    by (simp add: decimal_one_digit decimal_more_digits)
  have "exponential 1289520874255604500000 = ''1.2895208742556045e+21''"
    by (simp add: exponential_def decimal_eval Let_def)
  then show ?thesis
    by (simp add: toString_def len shortest_example)
qed

lemma formatTime_exponent_example:
  "round53 (2 ^ 86) = 2 ^ 86 \<and> formatTime (2 ^ 86) = ''1.2895208742556045e+21:55.26''"
proof -
  have dbl: "round53 (2 ^ 86) = 2 ^ 86"
    by (simp add: round53_eval)
  have minutes: "floor_quotient 77371252455336267181195264 60000 = 1289520874255604514816"
    by (simp add: floor_quotient_def log2_quotient_def round_half_even_def bitlen_0 bitlen_pos)
  have seconds: "floor_quotient 55264 1000 = 55"
    by (simp add: floor_quotient_exact)
  have centis: "floor_quotient 264 10 = 26"
    by (simp add: floor_quotient_exact)
  have "pad 1289520874255604514816 = ''1.2895208742556045e+21''"
    by (simp add: pad_def padStart_def toString_exponent_example)
  then have "formatTime (2 ^ 86) = ''1.2895208742556045e+21:55.26''"
    by (simp add: formatTime_def minutes seconds centis pad_large decimal_eval)
  with dbl show ?thesis by simp
qed

subsection \<open>The state cells under each operation\<close>

lemmas timer_defs =
  setInterval_def clearInterval_def clearIntervalRef_def effect_def effectCleanup_def tick_def
  round53_exact

lemmas handler_defs =
  handleStartStop_def handleReset_def handleShowLabelSelection_def handleSelectTimePoint_def

lemma clearIntervalRef_cells:
  "time (clearIntervalRef s) = time s"
  "isRunning (clearIntervalRef s) = isRunning s"
  "isSelectingLabel (clearIntervalRef s) = isSelectingLabel s"
  "currentDisplayedLabel (clearIntervalRef s) = currentDisplayedLabel s"
  by (simp_all add: clearIntervalRef_def clearInterval_def split: option.splits)

lemma effect_cells:
  "time (effect s) = time s"
  "isRunning (effect s) = isRunning s"
  "isSelectingLabel (effect s) = isSelectingLabel s"
  "currentDisplayedLabel (effect s) = currentDisplayedLabel s"
  by (simp_all add: effect_def setInterval_def clearIntervalRef_cells)

lemma step_selecting_running:
  assumes "isSelectingLabel s \<longrightarrow> isRunning s"
  shows "isSelectingLabel (step e s) \<longrightarrow> isRunning (step e s)"
  using assms
  by (cases e) (auto simp: handler_defs timer_defs Let_def split: option.splits)

lemma run_selecting_running:
  "isSelectingLabel s \<longrightarrow> isRunning s \<Longrightarrow>
   isSelectingLabel (run es s) \<longrightarrow> isRunning (run es s)"
proof (induction es arbitrary: s)
  case Nil
  then show ?case by simp
next
  case (Cons e es)
  from Cons.prems have "isSelectingLabel (step e s) \<longrightarrow> isRunning (step e s)"
    by (rule step_selecting_running)
  then have "isSelectingLabel (run es (step e s)) \<longrightarrow> isRunning (run es (step e s))"
    by (rule Cons.IH)
  then show ?case by simp
qed


lemma step_label:
  "currentDisplayedLabel (step e s) \<noteq> currentDisplayedLabel s \<Longrightarrow>
   e = Reset \<or> (\<exists>l. e = SelectLabel l \<and> isRunning s)"
  by (cases e)
    (auto simp: handler_defs tick_def effect_cells effectCleanup_def clearIntervalRef_cells
      Let_def split: if_splits)


subsection \<open>The interval of the component\<close>









subsection \<open>Ticks of a long run\<close>


section \<open>The claims\<close>

text \<open>
  The handlers are total functions on the state: none of them has an error result, and
  a call that does not apply (\<open>handleShowLabelSelection\<close> or \<open>handleSelectTimePoint\<close> on a
  stopped stopwatch) returns the state it was given. The buttons that the component
  disables or hides restrict which clicks a user can make; the theorems below do not rely
  on that and hold for every state and every sequence of events.
\<close>

text \<open>
  \<^bold>\<open>C1.\<close> Starting from the initial state (time 0, not running, not selecting a label,
  no label displayed), after every finite sequence of events (clicks on start/stop,
  reset, "select period" and a label button, firings of the interval, and runs of the
  effect) the state satisfies: if \<open>isSelectingLabel\<close> is true then \<open>isRunning\<close> is true.
  Moreover each operation by itself, the callback of the interval included, keeps this
  property from whatever state has it.
\<close>

theorem selectingLabel_implies_running:
  "time initial = 0 \<and> \<not> isRunning initial \<and> \<not> isSelectingLabel initial \<and>
   currentDisplayedLabel initial = None \<and>
   (isSelectingLabel (run es initial) \<longrightarrow> isRunning (run es initial)) \<and>
   ((isSelectingLabel s \<longrightarrow> isRunning s) \<longrightarrow>
      (isSelectingLabel (handleStartStop s) \<longrightarrow> isRunning (handleStartStop s)) \<and>
      (isSelectingLabel (handleReset s) \<longrightarrow> isRunning (handleReset s)) \<and>
      (isSelectingLabel (handleShowLabelSelection s) \<longrightarrow> isRunning (handleShowLabelSelection s)) \<and>
      (isSelectingLabel (handleSelectTimePoint l s) \<longrightarrow> isRunning (handleSelectTimePoint l s)) \<and>
      (isSelectingLabel (tick s) \<longrightarrow> isRunning (tick s)))"
proof -
  have "isSelectingLabel initial \<longrightarrow> isRunning initial" by (simp add: initial_def)
  then have reach: "isSelectingLabel (run es initial) \<longrightarrow> isRunning (run es initial)"
    by (rule run_selecting_running)
  have each: "(isSelectingLabel s \<longrightarrow> isRunning s) \<longrightarrow>
      (isSelectingLabel (handleStartStop s) \<longrightarrow> isRunning (handleStartStop s)) \<and>
      (isSelectingLabel (handleReset s) \<longrightarrow> isRunning (handleReset s)) \<and>
      (isSelectingLabel (handleShowLabelSelection s) \<longrightarrow> isRunning (handleShowLabelSelection s)) \<and>
      (isSelectingLabel (handleSelectTimePoint l s) \<longrightarrow> isRunning (handleSelectTimePoint l s)) \<and>
      (isSelectingLabel (tick s) \<longrightarrow> isRunning (tick s))"
    using step_selecting_running [of s ToggleRunning] step_selecting_running [of s Reset]
      step_selecting_running [of s RequestLabelSelection]
      step_selecting_running [of s "SelectLabel l"]
    by (simp add: tick_def)
  from reach each show ?thesis by (simp add: initial_def)
qed

theorem selectingLabel_implies_running_witness:
  "isSelectingLabel (run [ToggleRunning, RunEffect, RequestLabelSelection, Tick] initial) \<and>
   isRunning (run [ToggleRunning, RunEffect, RequestLabelSelection, Tick] initial) \<and>
   isSelectingLabel (tick (run [ToggleRunning, RunEffect, RequestLabelSelection, Tick] initial)) \<and>
   isRunning (tick (run [ToggleRunning, RunEffect, RequestLabelSelection, Tick] initial)) \<and>
   isSelectingLabel
     (handleShowLabelSelection (run [ToggleRunning, RunEffect, RequestLabelSelection, Tick] initial)) \<and>
   isRunning
     (handleShowLabelSelection (run [ToggleRunning, RunEffect, RequestLabelSelection, Tick] initial))"
proof -
  let ?es = "[ToggleRunning, RunEffect, RequestLabelSelection, Tick]"
  let ?s = "run ?es initial"
  have sel: "isSelectingLabel ?s"
    by (simp add: initial_def handler_defs timer_defs)
  have sel_tick: "isSelectingLabel (tick ?s)"
    by (simp add: initial_def handler_defs timer_defs)
  have sel_show: "isSelectingLabel (handleShowLabelSelection ?s)"
    by (simp add: initial_def handler_defs timer_defs)
  from sel selectingLabel_implies_running [of ?es ?s]
  have run: "isRunning ?s" by blast
  with sel_tick sel_show selectingLabel_implies_running [of ?es ?s]
  have "isRunning (tick ?s)" and "isRunning (handleShowLabelSelection ?s)" by blast+
  with sel sel_tick sel_show run show ?thesis by blast
qed




text \<open>
  \<^bold>\<open>C3.\<close> \<open>handleStartStop\<close> (toggleRunning) flips \<open>isRunning\<close>. When the stopwatch was
  running, the result also has \<open>isSelectingLabel = False\<close> (and nothing else changes); when
  it was stopped, every field other than \<open>isRunning\<close> is unchanged. The function is total.
\<close>

theorem handleStartStop_flips:
  "isRunning (handleStartStop s) = (\<not> isRunning s) \<and>
   (isRunning s \<longrightarrow>
      \<not> isSelectingLabel (handleStartStop s) \<and>
      handleStartStop s = s\<lparr>isRunning := False, isSelectingLabel := False\<rparr>) \<and>
   (\<not> isRunning s \<longrightarrow>
      handleStartStop s = s\<lparr>isRunning := True\<rparr> \<and>
      time (handleStartStop s) = time s \<and>
      isSelectingLabel (handleStartStop s) = isSelectingLabel s \<and>
      currentDisplayedLabel (handleStartStop s) = currentDisplayedLabel s)"
  by (simp add: handleStartStop_def Let_def)

theorem handleStartStop_flips_witness:
  "\<not> isRunning initial \<and>
   handleStartStop initial = initial\<lparr>isRunning := True\<rparr> \<and>
   isRunning (handleStartStop initial) \<and>
   isRunning (run [ToggleRunning, RunEffect, RequestLabelSelection] initial) \<and>
   isSelectingLabel (run [ToggleRunning, RunEffect, RequestLabelSelection] initial) \<and>
   \<not> isSelectingLabel
       (handleStartStop (run [ToggleRunning, RunEffect, RequestLabelSelection] initial)) \<and>
   \<not> isRunning (handleStartStop (run [ToggleRunning, RunEffect, RequestLabelSelection] initial))"
proof -
  let ?on = "run [ToggleRunning, RunEffect, RequestLabelSelection] initial"
  have a: "\<not> isRunning initial"
    by (simp add: initial_def)
  have b: "isRunning ?on" "isSelectingLabel ?on"
    by (simp_all add: initial_def handler_defs timer_defs)
  from a b handleStartStop_flips [of initial] handleStartStop_flips [of ?on]
  show ?thesis by blast
qed

text \<open>
  \<^bold>\<open>C4.\<close> For every state, running or not, \<open>handleReset\<close> gives time 0, not running, not
  selecting, no label displayed. After start, selecting the label "1st Half", stop and
  reset the stopwatch is back in its initial state (with the effect run in between, the
  four state cells are those of the initial state).
\<close>

theorem handleReset_idle:
  "time (handleReset s) = 0 \<and> \<not> isRunning (handleReset s) \<and>
   \<not> isSelectingLabel (handleReset s) \<and> currentDisplayedLabel (handleReset s) = None \<and>
   run [ToggleRunning, SelectLabel ''1st Half'', ToggleRunning, Reset] initial = initial \<and>
   time (run [ToggleRunning, RunEffect, SelectLabel ''1st Half'', ToggleRunning, RunEffect, Reset]
     initial) = 0 \<and>
   \<not> isRunning (run [ToggleRunning, RunEffect, SelectLabel ''1st Half'', ToggleRunning, RunEffect,
     Reset] initial) \<and>
   \<not> isSelectingLabel (run [ToggleRunning, RunEffect, SelectLabel ''1st Half'', ToggleRunning,
     RunEffect, Reset] initial) \<and>
   currentDisplayedLabel (run [ToggleRunning, RunEffect, SelectLabel ''1st Half'', ToggleRunning,
     RunEffect, Reset] initial) = None"
  by (simp add: initial_def handler_defs timer_defs split: option.splits)

theorem handleReset_idle_witness:
  "isRunning (run [ToggleRunning, RunEffect, SelectLabel ''1st Half''] initial) \<and>
   currentDisplayedLabel (run [ToggleRunning, RunEffect, SelectLabel ''1st Half''] initial)
     = Some ''1st Half'' \<and>
   time (handleReset (run [ToggleRunning, RunEffect, SelectLabel ''1st Half''] initial)) = 0 \<and>
   \<not> isRunning (handleReset (run [ToggleRunning, RunEffect, SelectLabel ''1st Half''] initial)) \<and>
   \<not> isSelectingLabel
       (handleReset (run [ToggleRunning, RunEffect, SelectLabel ''1st Half''] initial)) \<and>
   currentDisplayedLabel
       (handleReset (run [ToggleRunning, RunEffect, SelectLabel ''1st Half''] initial)) = None"
proof -
  have "isRunning (run [ToggleRunning, RunEffect, SelectLabel ''1st Half''] initial)"
    and "currentDisplayedLabel (run [ToggleRunning, RunEffect, SelectLabel ''1st Half''] initial)
     = Some ''1st Half''"
    by (simp_all add: initial_def handler_defs timer_defs)
  with handleReset_idle [of "run [ToggleRunning, RunEffect, SelectLabel ''1st Half''] initial"]
  show ?thesis by blast
qed

text \<open>
  \<^bold>\<open>C5.\<close> For every state and every string \<open>l\<close>, whether or not it is one of
  \<open>timePointLabels\<close>: on a running stopwatch \<open>handleSelectTimePoint l\<close> sets the displayed
  label to \<open>l\<close> (replacing the one displayed before) and \<open>isSelectingLabel\<close> to false, and
  leaves \<open>time\<close> and \<open>isRunning\<close> as they are; on a stopped stopwatch it returns the state
  unchanged. After start, "select period" and the label "2nd Half", that label is
  displayed, the selection is closed and the stopwatch runs.
\<close>

theorem handleSelectTimePoint_sets_label:
  "(isRunning s \<longrightarrow>
      handleSelectTimePoint l s = s\<lparr>currentDisplayedLabel := Some l, isSelectingLabel := False\<rparr> \<and>
      currentDisplayedLabel (handleSelectTimePoint l s) = Some l \<and>
      \<not> isSelectingLabel (handleSelectTimePoint l s) \<and>
      time (handleSelectTimePoint l s) = time s \<and>
      isRunning (handleSelectTimePoint l s)) \<and>
   (\<not> isRunning s \<longrightarrow> handleSelectTimePoint l s = s) \<and>
   currentDisplayedLabel
     (run [ToggleRunning, RequestLabelSelection, SelectLabel ''2nd Half''] initial) = Some ''2nd Half'' \<and>
   \<not> isSelectingLabel
     (run [ToggleRunning, RequestLabelSelection, SelectLabel ''2nd Half''] initial) \<and>
   isRunning (run [ToggleRunning, RequestLabelSelection, SelectLabel ''2nd Half''] initial)"
  by (simp add: initial_def handler_defs)

theorem handleSelectTimePoint_sets_label_witness:
  "isRunning (run [ToggleRunning, RunEffect, SelectLabel ''Intervallo'', RequestLabelSelection] initial) \<and>
   currentDisplayedLabel
     (run [ToggleRunning, RunEffect, SelectLabel ''Intervallo'', RequestLabelSelection] initial)
     = Some ''Intervallo'' \<and>
   ''2nd Half'' \<notin> set timePointLabels \<and>
   currentDisplayedLabel (handleSelectTimePoint ''2nd Half''
     (run [ToggleRunning, RunEffect, SelectLabel ''Intervallo'', RequestLabelSelection] initial))
     = Some ''2nd Half'' \<and>
   \<not> isSelectingLabel (handleSelectTimePoint ''2nd Half''
     (run [ToggleRunning, RunEffect, SelectLabel ''Intervallo'', RequestLabelSelection] initial)) \<and>
   \<not> isRunning initial \<and>
   handleSelectTimePoint ''2nd Half'' initial = initial"
proof -
  let ?s = "run [ToggleRunning, RunEffect, SelectLabel ''Intervallo'', RequestLabelSelection] initial"
  have a: "isRunning ?s" "currentDisplayedLabel ?s = Some ''Intervallo''"
    by (simp_all add: initial_def handler_defs timer_defs)
  have b: "''2nd Half'' \<notin> set timePointLabels"
    by (simp add: timePointLabels_def)
  have c: "\<not> isRunning initial"
    by (simp add: initial_def)
  from a b c handleSelectTimePoint_sets_label [of ?s "''2nd Half''"]
    handleSelectTimePoint_sets_label [of initial "''2nd Half''"]
  show ?thesis by blast
qed

text \<open>
  \<^bold>\<open>C6.\<close> On a running stopwatch \<open>handleShowLabelSelection\<close> sets \<open>isSelectingLabel\<close> to
  true and changes nothing else; on a stopped stopwatch it returns the whole state
  unchanged (in particular \<open>isSelectingLabel\<close> stays false in the initial state). There is
  no error result.
\<close>

theorem handleShowLabelSelection_guarded:
  "(isRunning s \<longrightarrow>
      handleShowLabelSelection s = s\<lparr>isSelectingLabel := True\<rparr> \<and>
      isSelectingLabel (handleShowLabelSelection s) \<and>
      time (handleShowLabelSelection s) = time s \<and>
      isRunning (handleShowLabelSelection s) \<and>
      currentDisplayedLabel (handleShowLabelSelection s) = currentDisplayedLabel s) \<and>
   (\<not> isRunning s \<longrightarrow> handleShowLabelSelection s = s) \<and>
   run [RequestLabelSelection] initial = initial \<and>
   \<not> isSelectingLabel (run [RequestLabelSelection] initial)"
  by (simp add: initial_def handler_defs)

theorem handleShowLabelSelection_guarded_witness:
  "isRunning (run [ToggleRunning, RunEffect] initial) \<and>
   isSelectingLabel (handleShowLabelSelection (run [ToggleRunning, RunEffect] initial)) \<and>
   isRunning (handleShowLabelSelection (run [ToggleRunning, RunEffect] initial)) \<and>
   \<not> isRunning (run [ToggleRunning, RunEffect, Tick, ToggleRunning, RunEffect] initial) \<and>
   handleShowLabelSelection (run [ToggleRunning, RunEffect, Tick, ToggleRunning, RunEffect] initial)
     = run [ToggleRunning, RunEffect, Tick, ToggleRunning, RunEffect] initial"
proof -
  let ?on = "run [ToggleRunning, RunEffect] initial"
  let ?off = "run [ToggleRunning, RunEffect, Tick, ToggleRunning, RunEffect] initial"
  have a: "isRunning ?on"
    by (simp add: initial_def handler_defs timer_defs)
  have b: "\<not> isRunning ?off"
    by (simp add: initial_def handler_defs timer_defs)
  from a b handleShowLabelSelection_guarded [of ?on] handleShowLabelSelection_guarded [of ?off]
  show ?thesis by blast
qed







text \<open>
  \<^bold>\<open>C9.\<close> \<open>handleReset\<close> is idempotent: resetting twice gives the same state as resetting
  once, and both have time 0, not running, not selecting, no label displayed.
\<close>

theorem handleReset_idempotent:
  "handleReset (handleReset s) = handleReset s \<and>
   time (handleReset s) = 0 \<and> \<not> isRunning (handleReset s) \<and>
   \<not> isSelectingLabel (handleReset s) \<and> currentDisplayedLabel (handleReset s) = None \<and>
   time (handleReset (handleReset s)) = 0 \<and> \<not> isRunning (handleReset (handleReset s)) \<and>
   \<not> isSelectingLabel (handleReset (handleReset s)) \<and>
   currentDisplayedLabel (handleReset (handleReset s)) = None"
  by (simp add: handleReset_def clearIntervalRef_def clearInterval_def split: option.splits)

theorem handleReset_idempotent_witness:
  "handleReset (handleReset (run [ToggleRunning, RunEffect, Tick, SelectLabel ''Intervallo''] initial))
     = handleReset (run [ToggleRunning, RunEffect, Tick, SelectLabel ''Intervallo''] initial) \<and>
   time (run [ToggleRunning, RunEffect, Tick, SelectLabel ''Intervallo''] initial) = 10 \<and>
   time (handleReset (run [ToggleRunning, RunEffect, Tick, SelectLabel ''Intervallo''] initial)) = 0"
proof -
  let ?s = "run [ToggleRunning, RunEffect, Tick, SelectLabel ''Intervallo''] initial"
  have "time ?s = 10"
    by (simp add: initial_def handler_defs timer_defs)
  with handleReset_idempotent [of ?s] show ?thesis by blast
qed

text \<open>
  \<^bold>\<open>C10.\<close> The displayed label is changed only by \<open>handleSelectTimePoint\<close> on a running
  stopwatch and by \<open>handleReset\<close>: \<open>handleStartStop\<close> (in both directions),
  \<open>handleShowLabelSelection\<close>, a firing of the interval and a run of the effect leave it as
  it is. A label selected while running is still displayed after the stop, until reset.
\<close>

theorem displayedLabel_frame:
  "currentDisplayedLabel (handleStartStop s) = currentDisplayedLabel s \<and>
   currentDisplayedLabel (handleShowLabelSelection s) = currentDisplayedLabel s \<and>
   currentDisplayedLabel (tick s) = currentDisplayedLabel s \<and>
   currentDisplayedLabel (effect (effectCleanup s)) = currentDisplayedLabel s \<and>
   (currentDisplayedLabel (step e s) \<noteq> currentDisplayedLabel s \<longrightarrow>
      e = Reset \<or> (\<exists>l. e = SelectLabel l \<and> isRunning s)) \<and>
   currentDisplayedLabel
     (run [ToggleRunning, RunEffect, RequestLabelSelection, SelectLabel ''Intervallo'',
           ToggleRunning, RunEffect] initial) = Some ''Intervallo'' \<and>
   \<not> isRunning
     (run [ToggleRunning, RunEffect, RequestLabelSelection, SelectLabel ''Intervallo'',
           ToggleRunning, RunEffect] initial) \<and>
   currentDisplayedLabel
     (run [ToggleRunning, RunEffect, RequestLabelSelection, SelectLabel ''Intervallo'',
           ToggleRunning, RunEffect, Reset] initial) = None"
proof -
  have "currentDisplayedLabel (step e s) \<noteq> currentDisplayedLabel s \<longrightarrow>
      e = Reset \<or> (\<exists>l. e = SelectLabel l \<and> isRunning s)"
    using step_label by blast
  moreover have "currentDisplayedLabel (handleStartStop s) = currentDisplayedLabel s"
    and "currentDisplayedLabel (handleShowLabelSelection s) = currentDisplayedLabel s"
    and "currentDisplayedLabel (tick s) = currentDisplayedLabel s"
    and "currentDisplayedLabel (effect (effectCleanup s)) = currentDisplayedLabel s"
    by (simp_all add: handler_defs timer_defs Let_def split: option.splits)
  moreover have "currentDisplayedLabel
     (run [ToggleRunning, RunEffect, RequestLabelSelection, SelectLabel ''Intervallo'',
           ToggleRunning, RunEffect] initial) = Some ''Intervallo''"
    and "\<not> isRunning
     (run [ToggleRunning, RunEffect, RequestLabelSelection, SelectLabel ''Intervallo'',
           ToggleRunning, RunEffect] initial)"
    and "currentDisplayedLabel
     (run [ToggleRunning, RunEffect, RequestLabelSelection, SelectLabel ''Intervallo'',
           ToggleRunning, RunEffect, Reset] initial) = None"
    by (simp_all add: initial_def handler_defs timer_defs)
  ultimately show ?thesis by blast
qed

theorem displayedLabel_frame_witness:
  "currentDisplayedLabel (step (SelectLabel ''Intervallo'') (run [ToggleRunning, RunEffect] initial))
     \<noteq> currentDisplayedLabel (run [ToggleRunning, RunEffect] initial) \<and>
   isRunning (run [ToggleRunning, RunEffect] initial) \<and>
   currentDisplayedLabel
     (handleStartStop (step (SelectLabel ''Intervallo'') (run [ToggleRunning, RunEffect] initial)))
     = Some ''Intervallo''"
proof -
  let ?s = "run [ToggleRunning, RunEffect] initial"
  have a: "currentDisplayedLabel (step (SelectLabel ''Intervallo'') ?s) \<noteq> currentDisplayedLabel ?s"
    by (simp add: initial_def handler_defs timer_defs)
  have b: "currentDisplayedLabel (step (SelectLabel ''Intervallo'') ?s) = Some ''Intervallo''"
    by (simp add: initial_def handler_defs timer_defs)
  from a displayedLabel_frame [of ?s "SelectLabel ''Intervallo''"]
  have c: "isRunning ?s" by blast
  from b displayedLabel_frame [of "step (SelectLabel ''Intervallo'') ?s"]
  have d: "currentDisplayedLabel (handleStartStop (step (SelectLabel ''Intervallo'') ?s))
     = Some ''Intervallo''" by simp
  from a c d show ?thesis by blast
qed

end
